theory Spec2Isabelle
  imports Main
begin

section \<open>Verification store (utils/verification-store.js, in src/unnamed/part_004)\<close>

text \<open>
  The class \<^verbatim>\<open>VerificationStore\<close> keeps a JavaScript \<^verbatim>\<open>Map\<close> from user ids to
  records \<^verbatim>\<open>{ guildId, state, timestamp }\<close> and mirrors it into the file
  \<^verbatim>\<open>data/verified.json\<close>. The model passes the state explicitly: the in-memory map and
  the last snapshot that reached the file. \<^verbatim>\<open>Date.now()\<close> is a parameter \<open>now\<close>
  (milliseconds, an integer), and the outcome of \<^verbatim>\<open>fs.writeFile\<close> is a parameter
  \<open>wr\<close> (\<open>True\<close>: the write succeeds). Each method changes the map before its first
  \<^verbatim>\<open>await\<close>, so a call is one step on the state. The \<open>state\<close> of a record is the
  secret of the session: the button handler of bot.js takes it from \<^verbatim>\<open>generateState()\<close>
  and passes it to \<^verbatim>\<open>addPending\<close>.
\<close>

record pending =
  guildId :: string
  state :: string
  timestamp :: int

record vstore =
  store :: "string \<rightharpoonup> pending"
  disk :: "string \<rightharpoonup> pending"

text \<open>
  The lines written through \<^verbatim>\<open>log\<close>, one constructor per message of the source, with
  the values interpolated into it.
\<close>

datatype log_entry =
    Info_added_pending string string
  | Warn_no_pending string
  | Warn_state_mismatch string
  | Warn_expired string
  | Success_verified string string
  | Error_persist
  | Warn_callback_without_params
  | Info_processing_callback string "string option"
  | Warn_invalid_or_expired string
  | Error_user_id_mismatch string string
  | Info_authenticated string
  | Success_role_assigned string
  | Error_role_assignment string
  | Error_oauth_callback
  | Error_discord_api
  | Info_settings_loaded nat
  | Info_no_settings_found
  | Error_settings_init
  | Info_settings_persisted
  | Error_settings_persist
  | Info_settings_updated string

text \<open>
  \<^verbatim>\<open>persist\<close>: writes the whole map to the file; a failed write is caught and logged,
  and the map in memory is never touched.
\<close>

definition persist :: "bool \<Rightarrow> vstore \<Rightarrow> vstore \<times> log_entry list" where
  "persist wr s = (if wr then (s\<lparr>disk := store s\<rparr>, []) else (s, [Error_persist]))"

text \<open>\<^verbatim>\<open>addPending(userId, guildId, state)\<close>: set, persist, log.\<close>

definition addPending ::
  "bool \<Rightarrow> int \<Rightarrow> vstore \<Rightarrow> string \<Rightarrow> string \<Rightarrow> string \<Rightarrow> vstore \<times> log_entry list" where
  "addPending wr now s userId gid st =
     (let s1 = s\<lparr>store := (store s)(userId \<mapsto> \<lparr>guildId = gid, state = st, timestamp = now\<rparr>)\<rparr>;
          (s2, l) = persist wr s1
      in (s2, l @ [Info_added_pending userId gid]))"

definition expirationTime :: int where
  "expirationTime = 5 * 60 * 1000"

text \<open>
  The result of \<^verbatim>\<open>verify\<close>: the state it leaves, the lines it logged, and the value
  it returns (\<open>None\<close> is \<^verbatim>\<open>null\<close>). The source returns \<^verbatim>\<open>null\<close> on each of its three
  rejections; they differ in the warning logged and in what happens to the map.
\<close>

record verify_outcome =
  after :: vstore
  logged :: "log_entry list"
  returned :: "pending option"

text \<open>
  \<^verbatim>\<open>verify(userId, state)\<close>. The presented \<open>state\<close> is a JavaScript value that may be
  \<^verbatim>\<open>undefined\<close> (\<open>None\<close>): the callback passes the third element of a split, which need
  not exist. The stored state is a string, and \<^verbatim>\<open>!==\<close> between a string and
  \<^verbatim>\<open>undefined\<close> is true. The checks run in the order of the source: presence, state,
  age.
\<close>

definition verify :: "bool \<Rightarrow> int \<Rightarrow> vstore \<Rightarrow> string \<Rightarrow> string option \<Rightarrow> verify_outcome" where
  "verify wr now s userId st =
     (case store s userId of
        None \<Rightarrow> \<lparr>after = s, logged = [Warn_no_pending userId], returned = None\<rparr>
      | Some data \<Rightarrow>
          if Some (state data) \<noteq> st then
            \<lparr>after = s, logged = [Warn_state_mismatch userId], returned = None\<rparr>
          else if now - timestamp data > expirationTime then
            (let (s2, l) = persist wr (s\<lparr>store := (store s)(userId := None)\<rparr>)
             in \<lparr>after = s2, logged = Warn_expired userId # l, returned = None\<rparr>)
          else
            (let (s2, l) = persist wr (s\<lparr>store := (store s)(userId := None)\<rparr>)
             in \<lparr>after = s2, logged = l @ [Success_verified userId (guildId data)],
                 returned = Some data\<rparr>))"

section \<open>OAuth2 callback (web.js, in src/unnamed/part_000)\<close>

text \<open>
  \<^verbatim>\<open>state.split(":")\<close>: the fields between the colons, empty fields kept; the result
  always has at least one element (\<^verbatim>\<open>"".split(":")\<close> is \<^verbatim>\<open>[""]\<close>).
\<close>

fun split_colon :: "string \<Rightarrow> string list" where
  "split_colon [] = [[]]"
| "split_colon (c # cs) =
     (if c = CHR '':'' then [] # split_colon cs
      else (case split_colon cs of
              [] \<Rightarrow> [[c]]
            | p # ps \<Rightarrow> (c # p) # ps))"

text \<open>
  Reading an array element, as the destructuring
  \<^verbatim>\<open>const [userId, guildId, stateToken] = state.split(":")\<close> does: an index past the end
  gives \<^verbatim>\<open>undefined\<close> (\<open>None\<close>).
\<close>

definition element :: "'a list \<Rightarrow> nat \<Rightarrow> 'a option" where
  "element xs i = (if i < length xs then Some (xs ! i) else None)"

text \<open>
  The world outside the handler. \<open>oauth2_token\<close> is the POST to Discord's token endpoint:
  the access token for a code, or \<open>None\<close> when axios throws. \<open>users_me\<close> is the GET of
  \<^verbatim>\<open>/users/@me\<close> with a token: the user object, or \<open>None\<close> when axios throws.
  \<open>assignVerifiedRole\<close> is the function of bot.js: it looks the guild up by the guild id it
  is given, adds that guild's configured role to the member and returns whether it succeeded;
  it catches every error itself. The field \<open>id_str\<close> is the \<^verbatim>\<open>id\<close> of the user object.
  \<open>error_response\<close> says whether the error that axios throws, when one of the two requests
  fails, carries a \<^verbatim>\<open>response\<close> (Discord answered with an error status) or not (the
  request did not get through); at most one request fails in a run of the handler, since the
  first failure ends it.
\<close>

record discordUser =
  id_str :: string
  username :: string

record env =
  oauth2_token :: "string \<Rightarrow> string option"
  users_me :: "string \<Rightarrow> discordUser option"
  error_response :: bool
  assignVerifiedRole :: "string \<Rightarrow> string option \<Rightarrow> bool"

text \<open>The calls that leave the handler, in the order they are made.\<close>

datatype call =
    Post_oauth2_token string
  | Get_users_me string
  | Call_assignVerifiedRole string "string option"

text \<open>
  The response: \<^verbatim>\<open>res.status(400).send(text)\<close>, or \<^verbatim>\<open>res.send(page)\<close> with the default
  status 200, where the page is \<^verbatim>\<open>generateErrorPage(message)\<close> or
  \<^verbatim>\<open>generateSuccessPage(username)\<close>.
\<close>

datatype body = Plain_text string | Error_page string | Success_page string

record response =
  status :: nat
  body :: body

record callback_outcome =
  store_after :: vstore
  sent :: response
  calls :: "call list"
  log :: "log_entry list"

text \<open>
  The lines that the \<^verbatim>\<open>catch\<close> block of the handler logs: the callback error, and the
  Discord API error when the caught error has a \<^verbatim>\<open>response\<close>.
\<close>

definition catch_log :: "env \<Rightarrow> log_entry list" where
  "catch_log e = Error_oauth_callback # (if error_response e then [Error_discord_api] else [])"

text \<open>
  The \<^verbatim>\<open>try\<close> block of the handler, entered with a truthy \<open>code\<close> and \<open>state\<close>. A
  throwing axios call lands in the \<^verbatim>\<open>catch\<close>, which logs and sends the generic error
  page. The guild id handed to \<open>assignVerifiedRole\<close> is the second field of the split.
\<close>

definition callback_try ::
  "env \<Rightarrow> bool \<Rightarrow> int \<Rightarrow> vstore \<Rightarrow> string \<Rightarrow> string \<Rightarrow> callback_outcome" where
  "callback_try e wr now s code st =
     (let parts = split_colon st;
          userId = hd parts;
          guildId = element parts 1;
          stateToken = element parts 2;
          v = verify wr now s userId stateToken;
          l = Info_processing_callback userId guildId # logged v
      in case returned v of
           None \<Rightarrow>
             \<lparr>store_after = after v,
              sent = \<lparr>status = 200,
                body = Error_page ''Verification link expired or invalid. Please try again.''\<rparr>,
              calls = [],
              log = l @ [Warn_invalid_or_expired userId]\<rparr>
         | Some verificationData \<Rightarrow>
             (case oauth2_token e code of
                None \<Rightarrow>
                  \<lparr>store_after = after v,
                   sent = \<lparr>status = 200,
                     body = Error_page ''An error occurred during verification. Please try again.''\<rparr>,
                   calls = [Post_oauth2_token code],
                   log = l @ catch_log e\<rparr>
              | Some access_token \<Rightarrow>
                  (case users_me e access_token of
                     None \<Rightarrow>
                       \<lparr>store_after = after v,
                        sent = \<lparr>status = 200,
                          body = Error_page ''An error occurred during verification. Please try again.''\<rparr>,
                        calls = [Post_oauth2_token code, Get_users_me access_token],
                        log = l @ catch_log e\<rparr>
                   | Some du \<Rightarrow>
                       if id_str du \<noteq> userId then
                         \<lparr>store_after = after v,
                          sent = \<lparr>status = 200,
                            body = Error_page ''User verification failed. Please try again.''\<rparr>,
                          calls = [Post_oauth2_token code, Get_users_me access_token],
                          log = l @ [Error_user_id_mismatch userId (id_str du)]\<rparr>
                       else if assignVerifiedRole e userId guildId then
                         \<lparr>store_after = after v,
                          sent = \<lparr>status = 200, body = Success_page (username du)\<rparr>,
                          calls = [Post_oauth2_token code, Get_users_me access_token,
                                   Call_assignVerifiedRole userId guildId],
                          log = l @ [Info_authenticated (username du), Success_role_assigned userId]\<rparr>
                       else
                         \<lparr>store_after = after v,
                          sent = \<lparr>status = 200,
                            body = Error_page
                              ''Verification succeeded, but role assignment failed. Please contact an administrator.''\<rparr>,
                          calls = [Post_oauth2_token code, Get_users_me access_token,
                                   Call_assignVerifiedRole userId guildId],
                          log = l @ [Info_authenticated (username du), Error_role_assignment userId]\<rparr>)))"

text \<open>
  The handler of \<^verbatim>\<open>GET /callback\<close>. The query parameters \<open>code\<close> and \<open>state\<close> are
  strings or missing (\<open>None\<close>); \<^verbatim>\<open>!code\<close> holds for a missing and for an empty one.
  (A parameter that is repeated in the query arrives as an array; the model covers the
  requests with at most one \<open>code\<close> and one \<open>state\<close>.)
\<close>

definition falsy :: "string option \<Rightarrow> bool" where
  "falsy q = (q = None \<or> q = Some [])"

definition invalid_parameters :: "vstore \<Rightarrow> callback_outcome" where
  "invalid_parameters s =
     \<lparr>store_after = s,
      sent = \<lparr>status = 400, body = Plain_text ''Invalid callback parameters''\<rparr>,
      calls = [],
      log = [Warn_callback_without_params]\<rparr>"

definition callback ::
  "env \<Rightarrow> bool \<Rightarrow> int \<Rightarrow> vstore \<Rightarrow> string option \<Rightarrow> string option \<Rightarrow> callback_outcome" where
  "callback e wr now s code st =
     (if falsy code \<or> falsy st then invalid_parameters s
      else (case (code, st) of
              (Some c, Some t) \<Rightarrow> callback_try e wr now s c t
            | _ \<Rightarrow> invalid_parameters s))"

section \<open>Guild settings (utils/guild-settings.js)\<close>

text \<open>
  A settings object is a JavaScript object whose properties hold strings or \<^verbatim>\<open>null\<close>; a
  property that is not there reads as \<^verbatim>\<open>undefined\<close> (\<open>None\<close>).
\<close>

datatype jsval = JNull | JStr string

type_synonym obj = "string \<rightharpoonup> jsval"

definition DEFAULT_MESSAGES :: obj where
  "DEFAULT_MESSAGES =
     [''roleId'' \<mapsto> JNull,
      ''embedTitle'' \<mapsto> JStr ''Welcome to {servername}!'',
      ''embedDescription'' \<mapsto> JStr
        ''Before you can start chatting in **{servername}**, you need to verify yourself.\<newline>\<newline>Click the **Verify** button below to get started.'',
      ''embedColor'' \<mapsto> JStr ''#5865F2'',
      ''dmTitle'' \<mapsto> JStr ''Verify Your Account'',
      ''dmDescription'' \<mapsto> JStr
        ''Hi {username}, click the link below to verify yourself in **{servername}**.\<newline>\<newline>This verification link is secure and will expire in 5 minutes.'',
      ''dmColor'' \<mapsto> JStr ''#5865F2'']"

text \<open>
  JavaScript hands objects around by reference, and what \<^verbatim>\<open>getSettings\<close> returns is such a
  reference. The model keeps the objects in an explicit heap: a reference is an index into
  the list of objects allocated so far, and an object literal or a spread
  \<^verbatim>\<open>{ ...a, ...b }\<close> allocates a new object at the end. The \<^verbatim>\<open>Map\<close> of the class maps a
  guild id to a reference. \<open>saved\<close> is the content of \<^verbatim>\<open>data/guild-settings.json\<close> as last
  written.
\<close>

type_synonym ref = nat

record gsettings =
  settings :: "string \<rightharpoonup> ref"
  heap :: "obj list"
  initialized :: bool
  saved :: "string \<rightharpoonup> obj"

text \<open>The constructor: an empty map, not initialized.\<close>

definition new_GuildSettings :: gsettings where
  "new_GuildSettings = \<lparr>settings = Map.empty, heap = [], initialized = False, saved = Map.empty\<rparr>"

text \<open>
  The object behind a reference, reading \<^verbatim>\<open>o.f\<close> and executing \<^verbatim>\<open>o.f = v\<close> for a
  reference \<open>o\<close>. JavaScript has no dangling references: every reference that the code
  holds was allocated before, so the branches for an index past the end are never taken.
\<close>

definition deref :: "gsettings \<Rightarrow> ref \<Rightarrow> obj" where
  "deref g r = (if r < length (heap g) then heap g ! r else Map.empty)"

definition property :: "gsettings \<Rightarrow> ref \<Rightarrow> string \<Rightarrow> jsval option" where
  "property g r f = deref g r f"

definition assign_property :: "ref \<Rightarrow> string \<Rightarrow> jsval \<Rightarrow> gsettings \<Rightarrow> gsettings" where
  "assign_property r f v g =
     (if r < length (heap g) then g\<lparr>heap := (heap g)[r := (deref g r)(f \<mapsto> v)]\<rparr> else g)"

text \<open>
  \<^verbatim>\<open>getSettings(guildId)\<close>: without an entry, a new object with the properties of
  \<^verbatim>\<open>DEFAULT_MESSAGES\<close>; with an entry, the value of the \<^verbatim>\<open>Map\<close> itself.
\<close>

definition getSettings :: "gsettings \<Rightarrow> string \<Rightarrow> ref \<times> gsettings" where
  "getSettings g gid =
     (case settings g gid of
        None \<Rightarrow> (length (heap g), g\<lparr>heap := heap g @ [DEFAULT_MESSAGES]\<rparr>)
      | Some r \<Rightarrow> (r, g))"

text \<open>
  \<^verbatim>\<open>persist\<close> of the settings: \<^verbatim>\<open>Object.fromEntries\<close> and \<^verbatim>\<open>JSON.stringify\<close> write the
  content of every object of the map; a failed write is caught and logged.
\<close>

definition persist_gs :: "bool \<Rightarrow> gsettings \<Rightarrow> gsettings \<times> log_entry list" where
  "persist_gs wr g =
     (if wr then (g\<lparr>saved := (\<lambda>k. case settings g k of None \<Rightarrow> None | Some r \<Rightarrow> Some (deref g r))\<rparr>,
                  [Info_settings_persisted])
      else (g, [Error_settings_persist]))"

text \<open>
  \<^verbatim>\<open>updateSettings(guildId, newSettings)\<close>: the current or default settings, overlaid with
  the new ones in a new object, which replaces the entry of the map.
\<close>

definition updateSettings ::
  "bool \<Rightarrow> gsettings \<Rightarrow> string \<Rightarrow> obj \<Rightarrow> gsettings \<times> log_entry list" where
  "updateSettings wr g gid newSettings =
     (let (currentSettings, g1) = getSettings g gid;
          updatedSettings = deref g1 currentSettings ++ newSettings;
          g2 = g1\<lparr>settings := (settings g1)(gid \<mapsto> length (heap g1)),
                  heap := heap g1 @ [updatedSettings]\<rparr>;
          (g3, l) = persist_gs wr g2
      in (g3, l @ [Info_settings_updated gid]))"

text \<open>
  \<^verbatim>\<open>init\<close>: \<open>mkdir\<close> says whether the data directory could be made, \<open>parsed\<close> is the parsed
  content of the settings file as its list of entries (\<open>None\<close>: the file cannot be read or
  parsed). \<^verbatim>\<open>new Map(Object.entries(parsed))\<close> starts from an empty map; every entry is an
  object of its own.
\<close>

fun load_entries :: "(string \<times> obj) list \<Rightarrow> gsettings \<Rightarrow> gsettings" where
  "load_entries [] g = g"
| "load_entries ((k, v) # es) g =
     load_entries es (g\<lparr>settings := (settings g)(k \<mapsto> length (heap g)), heap := heap g @ [v]\<rparr>)"

definition init_gs :: "bool \<Rightarrow> (string \<times> obj) list option \<Rightarrow> gsettings \<Rightarrow> gsettings \<times> log_entry list" where
  "init_gs mkdir parsed g =
     (if initialized g then (g, [])
      else if \<not> mkdir then (g, [Error_settings_init])
      else (case parsed of
              None \<Rightarrow> (g\<lparr>initialized := True\<rparr>, [Info_no_settings_found])
            | Some es \<Rightarrow>
                ((load_entries es (g\<lparr>settings := Map.empty\<rparr>))\<lparr>initialized := True\<rparr>,
                 [Info_settings_loaded (length (remdups (map fst es)))])))"

section \<open>Scenario data\<close>

text \<open>
  The concrete situations at which the theorems below are evaluated. User \<open>42\<close> has a
  pending verification for guild \<open>7\<close> with state \<open>abc\<close>, created at time 1000 and written
  to the file. Discord accepts every code and reports the user with id \<open>42\<close>
  (\<open>discord_42\<close>) or with id \<open>99\<close> (\<open>discord_99\<close>); the role assignment succeeds wherever
  it is asked for.
\<close>

abbreviation pending_42 :: pending where
  "pending_42 \<equiv> \<lparr>guildId = ''7'', state = ''abc'', timestamp = 1000\<rparr>"

abbreviation store_42 :: vstore where
  "store_42 \<equiv> \<lparr>store = [''42'' \<mapsto> pending_42], disk = [''42'' \<mapsto> pending_42]\<rparr>"

abbreviation discord_42 :: env where
  "discord_42 \<equiv>
     \<lparr>oauth2_token = (\<lambda>code. Some ''tok''),
      users_me = (\<lambda>token. Some \<lparr>id_str = ''42'', username = ''alice''\<rparr>),
      error_response = False,
      assignVerifiedRole = (\<lambda>userId guildId. True)\<rparr>"

abbreviation discord_99 :: env where
  "discord_99 \<equiv>
     \<lparr>oauth2_token = (\<lambda>code. Some ''tok''),
      users_me = (\<lambda>token. Some \<lparr>id_str = ''99'', username = ''mallory''\<rparr>),
      error_response = False,
      assignVerifiedRole = (\<lambda>userId guildId. True)\<rparr>"

text \<open>
  \<open>configured_7\<close>: guild \<open>7\<close> has been configured with role \<open>55\<close> through
  \<^verbatim>\<open>updateSettings\<close> on a new store. \<open>loaded_7\<close>: the store initialized from a settings
  file whose record for guild \<open>7\<close> has the property \<open>roleId\<close> only.
\<close>

abbreviation configured_7 :: gsettings where
  "configured_7 \<equiv> fst (updateSettings True new_GuildSettings ''7'' [''roleId'' \<mapsto> JStr ''55''])"

abbreviation loaded_7 :: gsettings where
  "loaded_7 \<equiv> fst (init_gs True (Some [(''7'', [''roleId'' \<mapsto> JStr ''55''])]) new_GuildSettings)"

section \<open>Properties of the verification store\<close>

lemma store_persist: "store (fst (persist wr s)) = store s"
  by (simp add: persist_def)

lemma store_addPending:
  "store (fst (addPending wr now s userId gid st)) =
     (store s)(userId \<mapsto> \<lparr>guildId = gid, state = st, timestamp = now\<rparr>)"
  by (simp add: addPending_def persist_def Let_def)

lemma store_42_created:
  "fst (addPending True 1000 \<lparr>store = Map.empty, disk = Map.empty\<rparr> ''42'' ''7'' ''abc'') = store_42"
  by (simp add: addPending_def persist_def)

lemma verify_absent:
  "store s userId = None \<Longrightarrow>
     verify wr now s userId st = \<lparr>after = s, logged = [Warn_no_pending userId], returned = None\<rparr>"
  by (simp add: verify_def)

lemma verify_mismatch:
  "store s userId = Some data \<Longrightarrow> st \<noteq> Some (state data) \<Longrightarrow>
     verify wr now s userId st = \<lparr>after = s, logged = [Warn_state_mismatch userId], returned = None\<rparr>"
  by (auto simp: verify_def)

lemma verify_fresh:
  "store s userId = Some data \<Longrightarrow> now - timestamp data \<le> expirationTime \<Longrightarrow>
     returned (verify wr now s userId (Some (state data))) = Some data \<and>
     store (after (verify wr now s userId (Some (state data)))) = (store s)(userId := None) \<and>
     last (logged (verify wr now s userId (Some (state data)))) = Success_verified userId (guildId data)"
  by (simp add: verify_def persist_def)

lemma verify_expired:
  "store s userId = Some data \<Longrightarrow> now - timestamp data > expirationTime \<Longrightarrow>
     returned (verify wr now s userId (Some (state data))) = None \<and>
     store (after (verify wr now s userId (Some (state data)))) = (store s)(userId := None) \<and>
     hd (logged (verify wr now s userId (Some (state data)))) = Warn_expired userId"
  by (simp add: verify_def persist_def)

section \<open>Claims about the verification store\<close>

text \<open>
  C1. After \<^verbatim>\<open>addPending\<close> has stored a session for a user, \<^verbatim>\<open>verify\<close> with the same
  user id and the stored state, called while the age of the session is at most the expiration
  time, returns the stored record (with the guild id given to \<^verbatim>\<open>addPending\<close>) and
  deletes the session; every later \<^verbatim>\<open>verify\<close> for that user, with any state and at any
  time, finds no pending verification and returns \<^verbatim>\<open>null\<close>, leaving the state as it is.
\<close>

theorem C1_verify_after_addPending_once:
  "now1 - now0 \<le> expirationTime \<Longrightarrow>
     (let s1 = fst (addPending wr0 now0 s userId gid st);
          v = verify wr1 now1 s1 userId (Some st)
      in returned v = Some \<lparr>guildId = gid, state = st, timestamp = now0\<rparr> \<and>
         store (after v) userId = None \<and>
         verify wr2 now2 (after v) userId st' =
           \<lparr>after = after v, logged = [Warn_no_pending userId], returned = None\<rparr>)"
proof -
  assume fresh: "now1 - now0 \<le> expirationTime"
  define s1 where "s1 = fst (addPending wr0 now0 s userId gid st)"
  define d where "d = \<lparr>guildId = gid, state = st, timestamp = now0\<rparr>"
  define v where "v = verify wr1 now1 s1 userId (Some st)"
  have stored: "store s1 userId = Some d"
    by (simp add: s1_def d_def store_addPending)
  have age: "now1 - timestamp d \<le> expirationTime"
    using fresh by (simp add: d_def)
  have st: "state d = st"
    by (simp add: d_def)
  from verify_fresh [OF stored age, of wr1]
  have ret: "returned v = Some d" and gone: "store (after v) userId = None"
    by (simp_all add: v_def st)
  from verify_absent [OF gone]
  have "verify wr2 now2 (after v) userId st' =
          \<lparr>after = after v, logged = [Warn_no_pending userId], returned = None\<rparr>" .
  with ret gone show ?thesis
    by (simp add: Let_def s1_def [symmetric] v_def [symmetric] d_def)
qed

text \<open>
  The witness: a session created at time 1000 in an empty store and asked for at time 301000,
  the last moment of the window; the second call is made with the same state.
\<close>

theorem C1_witness:
  "(301000::int) - 1000 \<le> expirationTime \<and>
   (let s1 = fst (addPending True 1000 \<lparr>store = Map.empty, disk = Map.empty\<rparr> ''42'' ''7'' ''abc'');
        v = verify True 301000 s1 ''42'' (Some ''abc'')
    in returned v = Some \<lparr>guildId = ''7'', state = ''abc'', timestamp = 1000\<rparr> \<and>
       store (after v) ''42'' = None \<and>
       verify True 301001 (after v) ''42'' (Some ''abc'') =
         \<lparr>after = after v, logged = [Warn_no_pending ''42''], returned = None\<rparr>)"
proof -
  have h: "(301000::int) - 1000 \<le> expirationTime"
    by (simp add: expirationTime_def)
  show ?thesis
    using h C1_verify_after_addPending_once
      [OF h, of True "\<lparr>store = Map.empty, disk = Map.empty\<rparr>" "''42''" "''7''" "''abc''"
         True True 301001 "Some ''abc''"]
    by simp
qed

text \<open>
  C4. When a session is stored for a user and the presented state differs from the stored one
  (another string, or \<^verbatim>\<open>undefined\<close>), \<^verbatim>\<open>verify\<close> returns \<^verbatim>\<open>null\<close> with the
  state-mismatch warning and leaves the whole state (the map and the file) exactly as it was;
  a later \<^verbatim>\<open>verify\<close> with the stored state, while the age of the session is at most the
  expiration time, still returns the stored record.
\<close>

theorem C4_wrong_state_changes_nothing:
  "store s userId = Some data \<Longrightarrow> st \<noteq> Some (state data) \<Longrightarrow>
     now' - timestamp data \<le> expirationTime \<Longrightarrow>
     verify wr now s userId st =
       \<lparr>after = s, logged = [Warn_state_mismatch userId], returned = None\<rparr> \<and>
     returned (verify wr' now' (after (verify wr now s userId st)) userId (Some (state data))) =
       Some data"
proof -
  assume stored: "store s userId = Some data"
    and wrong: "st \<noteq> Some (state data)"
    and age: "now' - timestamp data \<le> expirationTime"
  have rejected: "verify wr now s userId st =
      \<lparr>after = s, logged = [Warn_state_mismatch userId], returned = None\<rparr>"
    using stored wrong by (rule verify_mismatch)
  have "returned (verify wr' now' s userId (Some (state data))) = Some data"
    using verify_fresh [OF stored age] by simp
  with rejected show ?thesis by simp
qed

theorem C4_witness:
  "store store_42 ''42'' = Some pending_42 \<and>
   Some ''abd'' \<noteq> Some (state pending_42) \<and>
   (301000::int) - timestamp pending_42 \<le> expirationTime \<and>
   verify True 2000 store_42 ''42'' (Some ''abd'') =
     \<lparr>after = store_42, logged = [Warn_state_mismatch ''42''], returned = None\<rparr> \<and>
   returned (verify True 301000 (after (verify True 2000 store_42 ''42'' (Some ''abd''))) ''42'' (Some ''abc'')) =
     Some pending_42"
proof -
  have h1: "store store_42 ''42'' = Some pending_42" by simp
  have h2: "Some ''abd'' \<noteq> Some (state pending_42)" by simp
  have h3: "(301000::int) - timestamp pending_42 \<le> expirationTime"
    by (simp add: expirationTime_def)
  from C4_wrong_state_changes_nothing [OF h1 h2 h3, of True 2000 True] h1 h2 h3
  show ?thesis by (simp add: verify_def persist_def)
qed

text \<open>
  C5, as the source has it. The state is compared before the age. For a stored session whose
  age exceeds the expiration time, \<^verbatim>\<open>verify\<close> with the stored state returns \<^verbatim>\<open>null\<close>,
  logs the expiry warning first and deletes the session, so that every later \<^verbatim>\<open>verify\<close>
  for that user finds no pending verification; \<^verbatim>\<open>verify\<close> with any other state returns
  \<^verbatim>\<open>null\<close> with the state-mismatch warning and leaves the session where it is.
\<close>

theorem C5_expired_with_stored_state:
  "store s userId = Some data \<Longrightarrow> now - timestamp data > expirationTime \<Longrightarrow>
     (let v = verify wr now s userId (Some (state data))
      in returned v = None \<and>
         logged v = Warn_expired userId # (if wr then [] else [Error_persist]) \<and>
         store (after v) = (store s)(userId := None) \<and>
         verify wr' now' (after v) userId st' =
           \<lparr>after = after v, logged = [Warn_no_pending userId], returned = None\<rparr>) \<and>
     (st \<noteq> Some (state data) \<longrightarrow>
        verify wr now s userId st =
          \<lparr>after = s, logged = [Warn_state_mismatch userId], returned = None\<rparr>)"
proof -
  assume stored: "store s userId = Some data"
    and old: "now - timestamp data > expirationTime"
  define v where "v = verify wr now s userId (Some (state data))"
  have ret: "returned v = None"
    and log: "logged v = Warn_expired userId # (if wr then [] else [Error_persist])"
    and del: "store (after v) = (store s)(userId := None)"
    using stored old by (simp_all add: v_def verify_def persist_def)
  from del have "store (after v) userId = None" by simp
  then have again: "verify wr' now' (after v) userId st' =
      \<lparr>after = after v, logged = [Warn_no_pending userId], returned = None\<rparr>"
    by (rule verify_absent)
  have other: "st \<noteq> Some (state data) \<longrightarrow>
      verify wr now s userId st =
        \<lparr>after = s, logged = [Warn_state_mismatch userId], returned = None\<rparr>"
    using verify_mismatch [OF stored] by blast
  from ret log del again other show ?thesis
    by (simp add: Let_def v_def [symmetric])
qed

theorem C5_witness:
  "store store_42 ''42'' = Some pending_42 \<and>
   (301001::int) - timestamp pending_42 > expirationTime \<and>
   returned (verify True 301001 store_42 ''42'' (Some ''abc'')) = None \<and>
   logged (verify True 301001 store_42 ''42'' (Some ''abc'')) = [Warn_expired ''42''] \<and>
   store (after (verify True 301001 store_42 ''42'' (Some ''abc''))) ''42'' = None \<and>
   verify True 301002 (after (verify True 301001 store_42 ''42'' (Some ''abc''))) ''42'' (Some ''abc'') =
     \<lparr>after = after (verify True 301001 store_42 ''42'' (Some ''abc'')),
      logged = [Warn_no_pending ''42''], returned = None\<rparr> \<and>
   verify True 301001 store_42 ''42'' (Some ''abd'') =
     \<lparr>after = store_42, logged = [Warn_state_mismatch ''42''], returned = None\<rparr>"
proof -
  have h1: "store store_42 ''42'' = Some pending_42" by simp
  have h2: "(301001::int) - timestamp pending_42 > expirationTime"
    by (simp add: expirationTime_def)
  from C5_expired_with_stored_state
    [OF h1 h2, of True True 301002 "Some ''abc''" "Some ''abd''"] h1 h2
  show ?thesis by (simp add: Let_def)
qed

text \<open>
  C5 as it is worded fails: a session older than the expiration time, asked for with a state
  other than the stored one, is rejected for the mismatch, not for its age, and stays in the
  map; the stored state, presented afterwards, is then rejected for the age and not for a
  missing session.
\<close>

theorem C5_counterexample:
  "(301001::int) - timestamp pending_42 > expirationTime \<and>
   store store_42 ''42'' = Some pending_42 \<and>
   logged (verify True 301001 store_42 ''42'' (Some ''abd'')) = [Warn_state_mismatch ''42''] \<and>
   store (after (verify True 301001 store_42 ''42'' (Some ''abd''))) ''42'' = Some pending_42 \<and>
   logged (verify True 301002 (after (verify True 301001 store_42 ''42'' (Some ''abd''))) ''42''
             (Some ''abc'')) = [Warn_expired ''42'']"
  by (simp add: verify_def persist_def expirationTime_def)

text \<open>
  C6, as the source has it. \<^verbatim>\<open>addPending\<close> stores the state it is given and compares it
  with nothing. When a user has a pending session and \<^verbatim>\<open>addPending\<close> is called again for
  that user, the new record replaces the old one. If the new state differs from the old one,
  \<^verbatim>\<open>verify\<close> with the old state returns \<^verbatim>\<open>null\<close> with the state-mismatch warning and
  changes nothing, at any time. If the new state is the old one again, \<^verbatim>\<open>verify\<close> with it,
  called while the age of the new record is at most the expiration time, returns the new
  record.
\<close>

theorem C6_addPending_replaces_session:
  "store s userId = Some old \<Longrightarrow>
     (let s1 = fst (addPending wr0 now0 s userId gid st)
      in store s1 userId = Some \<lparr>guildId = gid, state = st, timestamp = now0\<rparr> \<and>
         (st \<noteq> state old \<longrightarrow>
            verify wr1 now1 s1 userId (Some (state old)) =
              \<lparr>after = s1, logged = [Warn_state_mismatch userId], returned = None\<rparr>) \<and>
         (st = state old \<and> now1 - now0 \<le> expirationTime \<longrightarrow>
            returned (verify wr1 now1 s1 userId (Some (state old))) =
              Some \<lparr>guildId = gid, state = st, timestamp = now0\<rparr>))"
proof -
  assume stored: "store s userId = Some old"
  define s1 where "s1 = fst (addPending wr0 now0 s userId gid st)"
  define d where "d = \<lparr>guildId = gid, state = st, timestamp = now0\<rparr>"
  have new: "store s1 userId = Some d"
    by (simp add: s1_def d_def store_addPending)
  have differs: "verify wr1 now1 s1 userId (Some (state old)) =
      \<lparr>after = s1, logged = [Warn_state_mismatch userId], returned = None\<rparr>"
    if "st \<noteq> state old"
  proof -
    from that have "Some (state old) \<noteq> Some (state d)"
      by (simp add: d_def)
    with new show ?thesis by (rule verify_mismatch)
  qed
  have same: "returned (verify wr1 now1 s1 userId (Some (state old))) = Some d"
    if "st = state old" and "now1 - now0 \<le> expirationTime"
  proof -
    from that(2) have age: "now1 - timestamp d \<le> expirationTime"
      by (simp add: d_def)
    from that(1) have "state old = state d"
      by (simp add: d_def)
    with verify_fresh [OF new age, of wr1] show ?thesis by simp
  qed
  from new differs same show ?thesis
    unfolding d_def by (auto simp: Let_def s1_def [symmetric])
qed

theorem C6_witness:
  "store store_42 ''42'' = Some pending_42 \<and>
   ''xyz'' \<noteq> state pending_42 \<and>
   store (fst (addPending True 2000 store_42 ''42'' ''7'' ''xyz'')) ''42'' =
     Some \<lparr>guildId = ''7'', state = ''xyz'', timestamp = 2000\<rparr> \<and>
   verify True 3000 (fst (addPending True 2000 store_42 ''42'' ''7'' ''xyz'')) ''42'' (Some ''abc'') =
     \<lparr>after = fst (addPending True 2000 store_42 ''42'' ''7'' ''xyz''),
      logged = [Warn_state_mismatch ''42''], returned = None\<rparr> \<and>
   ''abc'' = state pending_42 \<and> (3000::int) - 2000 \<le> expirationTime \<and>
   returned (verify True 3000 (fst (addPending True 2000 store_42 ''42'' ''8'' ''abc'')) ''42'' (Some ''abc'')) =
     Some \<lparr>guildId = ''8'', state = ''abc'', timestamp = 2000\<rparr>"
proof -
  have h1: "store store_42 ''42'' = Some pending_42" by simp
  have h2: "''xyz'' \<noteq> state pending_42" by simp
  have h3: "''abc'' = state pending_42" by simp
  have h4: "(3000::int) - 2000 \<le> expirationTime"
    by (simp add: expirationTime_def)
  note differs = C6_addPending_replaces_session
    [OF h1, of True 2000 "''7''" "''xyz''" True 3000]
  note same = C6_addPending_replaces_session
    [OF h1, of True 2000 "''8''" "''abc''" True 3000]
  from differs h2
  have a: "store (fst (addPending True 2000 store_42 ''42'' ''7'' ''xyz'')) ''42'' =
      Some \<lparr>guildId = ''7'', state = ''xyz'', timestamp = 2000\<rparr>"
    and b: "verify True 3000 (fst (addPending True 2000 store_42 ''42'' ''7'' ''xyz'')) ''42'' (Some ''abc'') =
      \<lparr>after = fst (addPending True 2000 store_42 ''42'' ''7'' ''xyz''),
       logged = [Warn_state_mismatch ''42''], returned = None\<rparr>"
    by (simp_all add: Let_def)
  from same h3 h4
  have c: "returned (verify True 3000 (fst (addPending True 2000 store_42 ''42'' ''8'' ''abc'')) ''42''
      (Some ''abc'')) = Some \<lparr>guildId = ''8'', state = ''abc'', timestamp = 2000\<rparr>"
    by (simp add: Let_def)
  from h1 h2 h3 h4 a b c show ?thesis
    by (intro conjI)
qed

text \<open>
  C6 as it is worded fails: with the session of user \<open>42\<close> pending under state \<open>abc\<close>, a second
  \<^verbatim>\<open>addPending\<close> for that user with the state \<open>abc\<close> again (here for guild \<open>8\<close>) is
  accepted, and \<^verbatim>\<open>verify\<close> with the old state succeeds: it returns the new record.
\<close>

theorem C6_counterexample:
  "store store_42 ''42'' = Some pending_42 \<and>
   state pending_42 = ''abc'' \<and>
   returned (verify True 3000 (fst (addPending True 2000 store_42 ''42'' ''8'' ''abc'')) ''42'' (Some ''abc'')) =
     Some \<lparr>guildId = ''8'', state = ''abc'', timestamp = 2000\<rparr>"
  by (simp add: addPending_def verify_def persist_def expirationTime_def)

section \<open>Properties of the callback\<close>

lemma split_colon_nonempty: "split_colon t \<noteq> []"
  by (induction t) (auto split: list.splits)

lemma verify_undefined:
  "after (verify wr now s userId None) = s \<and> returned (verify wr now s userId None) = None"
  by (simp add: verify_def split: option.splits)

lemma callback_truthy:
  "c \<noteq> [] \<Longrightarrow> t \<noteq> [] \<Longrightarrow> callback e wr now s (Some c) (Some t) = callback_try e wr now s c t"
  by (simp add: callback_def falsy_def)

lemma callback_falsy:
  "falsy code \<or> falsy st \<Longrightarrow> callback e wr now s code st = invalid_parameters s"
  by (simp add: callback_def)

lemma callback_try_short:
  assumes "length (split_colon t) < 3"
  shows "store_after (callback_try e wr now s c t) = s"
    and "sent (callback_try e wr now s c t) =
           \<lparr>status = 200, body = Error_page ''Verification link expired or invalid. Please try again.''\<rparr>"
    and "calls (callback_try e wr now s c t) = []"
proof -
  from assms have "element (split_colon t) 2 = None"
    by (simp add: element_def)
  then show "store_after (callback_try e wr now s c t) = s"
    and "sent (callback_try e wr now s c t) =
           \<lparr>status = 200, body = Error_page ''Verification link expired or invalid. Please try again.''\<rparr>"
    and "calls (callback_try e wr now s c t) = []"
    by (simp_all add: callback_try_def Let_def verify_undefined)
qed

lemma element_take: "i < n \<Longrightarrow> element (take n xs) i = element xs i"
  by (simp add: element_def)

lemma hd_take3: "xs \<noteq> [] \<Longrightarrow> hd (take 3 xs) = hd xs"
  by (cases xs) simp_all

lemma callback_try_first_three:
  assumes "take 3 (split_colon t) = take 3 (split_colon t')"
  shows "callback_try e wr now s c t = callback_try e wr now s c t'"
proof -
  have "hd (split_colon t) = hd (take 3 (split_colon t))"
    by (simp add: hd_take3 split_colon_nonempty)
  also have "\<dots> = hd (split_colon t')"
    by (simp add: assms hd_take3 split_colon_nonempty)
  finally have h: "hd (split_colon t) = hd (split_colon t')" .
  have "element (split_colon t) 1 = element (take 3 (split_colon t)) 1"
    by (simp add: element_take)
  then have g: "element (split_colon t) 1 = element (split_colon t') 1"
    by (simp add: assms element_take)
  have "element (split_colon t) 2 = element (take 3 (split_colon t)) 2"
    by (simp add: element_take)
  then have k: "element (split_colon t) 2 = element (split_colon t') 2"
    by (simp add: assms element_take)
  show ?thesis
    unfolding callback_try_def Let_def h g k by (rule refl)
qed

text \<open>
  Whenever the handler calls \<open>assignVerifiedRole\<close>, the guild id it passes is the second
  field of the \<open>state\<close> parameter of the request, whatever guild the redeemed record holds.
\<close>

lemma callback_try_guild_of_state:
  "Call_assignVerifiedRole u g \<in> set (calls (callback_try e wr now s c t)) \<Longrightarrow>
     u = hd (split_colon t) \<and> g = element (split_colon t) 1"
  by (auto simp: callback_try_def Let_def split: option.splits if_splits)

lemma split_42_7_abc: "split_colon ''42:7:abc'' = [''42'', ''7'', ''abc'']"
  by simp

lemma split_42_8_abc: "split_colon ''42:8:abc'' = [''42'', ''8'', ''abc'']"
  by simp

lemma split_42_7: "split_colon ''42:7'' = [''42'', ''7'']"
  by simp

lemma split_42_7_abc_zzz: "split_colon ''42:7:abc:zzz'' = [''42'', ''7'', ''abc'', ''zzz'']"
  by simp

section \<open>Claims about the callback\<close>

text \<open>
  C2. The claim is that the role is granted in the guild stored with the session. The handler
  does not read the guild of the record that \<^verbatim>\<open>verify\<close> returns: it hands the second field
  of the \<open>state\<close> query parameter to \<open>assignVerifiedRole\<close>. With the session of user \<open>42\<close>
  stored for guild \<open>7\<close>, the callback with state \<open>42:8:abc\<close> redeems that session and asks for
  the role in guild \<open>8\<close>, and answers with the success page.
\<close>

theorem C2_role_asked_for_in_the_guild_of_the_query:
  "map_option guildId (returned (verify True 2000 store_42 ''42'' (Some ''abc''))) = Some ''7'' \<and>
   calls (callback discord_42 True 2000 store_42 (Some ''c0de'') (Some ''42:8:abc'')) =
     [Post_oauth2_token ''c0de'', Get_users_me ''tok'', Call_assignVerifiedRole ''42'' (Some ''8'')] \<and>
   sent (callback discord_42 True 2000 store_42 (Some ''c0de'') (Some ''42:8:abc'')) =
     \<lparr>status = 200, body = Success_page ''alice''\<rparr> \<and>
   store (store_after (callback discord_42 True 2000 store_42 (Some ''c0de'') (Some ''42:8:abc''))) ''42'' = None"
  by (simp add: callback_def falsy_def callback_try_def Let_def split_42_8_abc element_def
      verify_def persist_def expirationTime_def)

text \<open>
  C7. When the callback has redeemed a session (the \<^verbatim>\<open>verify\<close> call of the handler returned
  a record), the token exchange succeeded and Discord reports a user whose id differs from the
  user id of the session, the handler answers with the error page for a failed user
  verification, and the calls it made are the token exchange and the user lookup only:
  \<open>assignVerifiedRole\<close> is not called.
\<close>

theorem C7_identity_mismatch_no_role:
  "c \<noteq> [] \<Longrightarrow> t \<noteq> [] \<Longrightarrow>
   returned (verify wr now s (hd (split_colon t)) (element (split_colon t) 2)) = Some data \<Longrightarrow>
   oauth2_token e c = Some tok \<Longrightarrow> users_me e tok = Some du \<Longrightarrow>
   id_str du \<noteq> hd (split_colon t) \<Longrightarrow>
     sent (callback e wr now s (Some c) (Some t)) =
       \<lparr>status = 200, body = Error_page ''User verification failed. Please try again.''\<rparr> \<and>
     calls (callback e wr now s (Some c) (Some t)) = [Post_oauth2_token c, Get_users_me tok] \<and>
     (\<forall>u g. Call_assignVerifiedRole u g \<notin> set (calls (callback e wr now s (Some c) (Some t))))"
proof -
  assume c: "c \<noteq> []" and t: "t \<noteq> []"
    and redeemed: "returned (verify wr now s (hd (split_colon t)) (element (split_colon t) 2)) = Some data"
    and token: "oauth2_token e c = Some tok"
    and user: "users_me e tok = Some du"
    and differs: "id_str du \<noteq> hd (split_colon t)"
  have "callback e wr now s (Some c) (Some t) = callback_try e wr now s c t"
    using c t by (rule callback_truthy)
  moreover have "sent (callback_try e wr now s c t) =
      \<lparr>status = 200, body = Error_page ''User verification failed. Please try again.''\<rparr>"
    using redeemed token user differs by (simp add: callback_try_def Let_def)
  moreover have "calls (callback_try e wr now s c t) = [Post_oauth2_token c, Get_users_me tok]"
    using redeemed token user differs by (simp add: callback_try_def Let_def)
  ultimately show ?thesis by simp
qed

theorem C7_witness:
  "''c0de'' \<noteq> [] \<and> ''42:7:abc'' \<noteq> [] \<and>
   returned (verify True 2000 store_42 (hd (split_colon ''42:7:abc'')) (element (split_colon ''42:7:abc'') 2)) =
     Some pending_42 \<and>
   oauth2_token discord_99 ''c0de'' = Some ''tok'' \<and>
   users_me discord_99 ''tok'' = Some \<lparr>id_str = ''99'', username = ''mallory''\<rparr> \<and>
   id_str \<lparr>id_str = ''99'', username = ''mallory''\<rparr> \<noteq> hd (split_colon ''42:7:abc'') \<and>
   sent (callback discord_99 True 2000 store_42 (Some ''c0de'') (Some ''42:7:abc'')) =
     \<lparr>status = 200, body = Error_page ''User verification failed. Please try again.''\<rparr> \<and>
   calls (callback discord_99 True 2000 store_42 (Some ''c0de'') (Some ''42:7:abc'')) =
     [Post_oauth2_token ''c0de'', Get_users_me ''tok''] \<and>
   Call_assignVerifiedRole ''42'' (Some ''7'') \<notin>
     set (calls (callback discord_99 True 2000 store_42 (Some ''c0de'') (Some ''42:7:abc'')))"
proof -
  have h1: "''c0de'' \<noteq> []" and h2: "''42:7:abc'' \<noteq> []"
    by simp_all
  have h3: "returned (verify True 2000 store_42 (hd (split_colon ''42:7:abc''))
                (element (split_colon ''42:7:abc'') 2)) = Some pending_42"
    by (simp add: split_42_7_abc element_def verify_def persist_def expirationTime_def)
  have h4: "oauth2_token discord_99 ''c0de'' = Some ''tok''"
    and h5: "users_me discord_99 ''tok'' = Some \<lparr>id_str = ''99'', username = ''mallory''\<rparr>"
    by simp_all
  have h6: "id_str \<lparr>id_str = ''99'', username = ''mallory''\<rparr> \<noteq> hd (split_colon ''42:7:abc'')"
    by (simp add: split_42_7_abc)
  from C7_identity_mismatch_no_role [OF h1 h2 h3 h4 h5 h6] h1 h2 h3 h4 h5 h6
  show ?thesis by simp
qed

text \<open>
  C8, as the source has it. The handler validates only that \<open>code\<close> and \<open>state\<close> are
  present and not empty: otherwise it answers 400 and touches nothing. It does not count the
  fields of \<open>state\<close>. With fewer than three fields the third element of the split is
  \<^verbatim>\<open>undefined\<close>, which no stored state equals: the answer is the error page for an invalid
  link, sent with status 200, the store is unchanged and no call leaves the handler. Fields
  after the third are ignored: two states whose first three fields agree are handled alike.
\<close>

theorem C8_malformed_state_as_coded:
  "(falsy code \<or> falsy st \<longrightarrow>
      callback e wr now s code st =
        \<lparr>store_after = s,
         sent = \<lparr>status = 400, body = Plain_text ''Invalid callback parameters''\<rparr>,
         calls = [],
         log = [Warn_callback_without_params]\<rparr>) \<and>
   (c \<noteq> [] \<and> t \<noteq> [] \<and> length (split_colon t) < 3 \<longrightarrow>
      store_after (callback e wr now s (Some c) (Some t)) = s \<and>
      sent (callback e wr now s (Some c) (Some t)) =
        \<lparr>status = 200, body = Error_page ''Verification link expired or invalid. Please try again.''\<rparr> \<and>
      calls (callback e wr now s (Some c) (Some t)) = []) \<and>
   (c \<noteq> [] \<and> t \<noteq> [] \<and> t' \<noteq> [] \<and> take 3 (split_colon t) = take 3 (split_colon t') \<longrightarrow>
      callback e wr now s (Some c) (Some t) = callback e wr now s (Some c) (Some t'))"
proof (intro conjI impI)
  assume "falsy code \<or> falsy st"
  then show "callback e wr now s code st =
      \<lparr>store_after = s,
       sent = \<lparr>status = 400, body = Plain_text ''Invalid callback parameters''\<rparr>,
       calls = [],
       log = [Warn_callback_without_params]\<rparr>"
    by (simp add: callback_falsy invalid_parameters_def)
next
  assume a: "c \<noteq> [] \<and> t \<noteq> [] \<and> length (split_colon t) < 3"
  then have eq: "callback e wr now s (Some c) (Some t) = callback_try e wr now s c t"
    by (simp add: callback_truthy)
  from a have short: "length (split_colon t) < 3" by simp
  show "store_after (callback e wr now s (Some c) (Some t)) = s"
    by (simp add: eq callback_try_short(1) [OF short])
  show "sent (callback e wr now s (Some c) (Some t)) =
      \<lparr>status = 200, body = Error_page ''Verification link expired or invalid. Please try again.''\<rparr>"
    by (simp add: eq callback_try_short(2) [OF short])
  show "calls (callback e wr now s (Some c) (Some t)) = []"
    by (simp add: eq callback_try_short(3) [OF short])
next
  assume a: "c \<noteq> [] \<and> t \<noteq> [] \<and> t' \<noteq> [] \<and> take 3 (split_colon t) = take 3 (split_colon t')"
  then have same: "take 3 (split_colon t) = take 3 (split_colon t')"
    by (elim conjE)
  have "callback e wr now s (Some c) (Some t) = callback_try e wr now s c t"
    using a by (simp add: callback_truthy)
  also have "\<dots> = callback_try e wr now s c t'"
    using same by (rule callback_try_first_three)
  also have "\<dots> = callback e wr now s (Some c) (Some t')"
    using a by (simp add: callback_truthy)
  finally show "callback e wr now s (Some c) (Some t) = callback e wr now s (Some c) (Some t')" .
qed

theorem C8_witness:
  "(falsy (Some ''c0de'') \<or> falsy None) \<and>
   callback discord_42 True 2000 store_42 (Some ''c0de'') None =
     \<lparr>store_after = store_42,
      sent = \<lparr>status = 400, body = Plain_text ''Invalid callback parameters''\<rparr>,
      calls = [],
      log = [Warn_callback_without_params]\<rparr> \<and>
   ''c0de'' \<noteq> [] \<and> ''42:7'' \<noteq> [] \<and> length (split_colon ''42:7'') < 3 \<and>
   store_after (callback discord_42 True 2000 store_42 (Some ''c0de'') (Some ''42:7'')) = store_42 \<and>
   sent (callback discord_42 True 2000 store_42 (Some ''c0de'') (Some ''42:7'')) =
     \<lparr>status = 200, body = Error_page ''Verification link expired or invalid. Please try again.''\<rparr> \<and>
   calls (callback discord_42 True 2000 store_42 (Some ''c0de'') (Some ''42:7'')) = [] \<and>
   ''42:7:abc:zzz'' \<noteq> [] \<and> ''42:7:abc'' \<noteq> [] \<and>
   take 3 (split_colon ''42:7:abc:zzz'') = take 3 (split_colon ''42:7:abc'') \<and>
   callback discord_42 True 2000 store_42 (Some ''c0de'') (Some ''42:7:abc:zzz'') =
     callback discord_42 True 2000 store_42 (Some ''c0de'') (Some ''42:7:abc'')"
proof -
  have h1: "falsy (Some ''c0de'') \<or> falsy None"
    by (simp add: falsy_def)
  have h2: "''c0de'' \<noteq> [] \<and> ''42:7'' \<noteq> [] \<and> length (split_colon ''42:7'') < 3"
    by (simp add: split_42_7)
  have h3: "''c0de'' \<noteq> [] \<and> ''42:7:abc:zzz'' \<noteq> [] \<and> ''42:7:abc'' \<noteq> [] \<and>
      take 3 (split_colon ''42:7:abc:zzz'') = take 3 (split_colon ''42:7:abc'')"
    by (simp add: split_42_7_abc split_42_7_abc_zzz)
  have a: "callback discord_42 True 2000 store_42 (Some ''c0de'') None =
     \<lparr>store_after = store_42,
      sent = \<lparr>status = 400, body = Plain_text ''Invalid callback parameters''\<rparr>,
      calls = [],
      log = [Warn_callback_without_params]\<rparr>"
    using C8_malformed_state_as_coded
      [of "Some ''c0de''" None discord_42 True 2000 store_42 "''c0de''" "''42:7''" "''42:7''"] h1
    by blast
  have b: "store_after (callback discord_42 True 2000 store_42 (Some ''c0de'') (Some ''42:7'')) = store_42 \<and>
     sent (callback discord_42 True 2000 store_42 (Some ''c0de'') (Some ''42:7'')) =
       \<lparr>status = 200, body = Error_page ''Verification link expired or invalid. Please try again.''\<rparr> \<and>
     calls (callback discord_42 True 2000 store_42 (Some ''c0de'') (Some ''42:7'')) = []"
    using C8_malformed_state_as_coded
      [of "Some ''c0de''" None discord_42 True 2000 store_42 "''c0de''" "''42:7''" "''42:7''"] h2
    by blast
  have d: "callback discord_42 True 2000 store_42 (Some ''c0de'') (Some ''42:7:abc:zzz'') =
     callback discord_42 True 2000 store_42 (Some ''c0de'') (Some ''42:7:abc'')"
    using C8_malformed_state_as_coded
      [of "Some ''c0de''" None discord_42 True 2000 store_42 "''c0de''" "''42:7:abc:zzz''" "''42:7:abc''"] h3
    by blast
  from h1 h2 h3 a b d show ?thesis by blast
qed

text \<open>
  C8 as it is worded fails. A state of two fields is answered with status 200, not 400. A
  state of four fields is parsed by its first three: the session is redeemed and deleted, the
  role is asked for, and the success page is sent.
\<close>

theorem C8_counterexample:
  "length (split_colon ''42:7'') = 2 \<and>
   status (sent (callback discord_42 True 2000 store_42 (Some ''c0de'') (Some ''42:7''))) = 200 \<and>
   length (split_colon ''42:7:abc:zzz'') = 4 \<and>
   sent (callback discord_42 True 2000 store_42 (Some ''c0de'') (Some ''42:7:abc:zzz'')) =
     \<lparr>status = 200, body = Success_page ''alice''\<rparr> \<and>
   store store_42 ''42'' = Some pending_42 \<and>
   store (store_after (callback discord_42 True 2000 store_42 (Some ''c0de'') (Some ''42:7:abc:zzz''))) ''42'' =
     None \<and>
   calls (callback discord_42 True 2000 store_42 (Some ''c0de'') (Some ''42:7:abc:zzz'')) =
     [Post_oauth2_token ''c0de'', Get_users_me ''tok'', Call_assignVerifiedRole ''42'' (Some ''7'')]"
  by (simp add: callback_def falsy_def callback_try_def Let_def split_42_7 split_42_7_abc_zzz
      element_def verify_def persist_def expirationTime_def)


section \<open>Properties of the guild settings\<close>

lemma getSettings_stored: "settings g gid = Some r \<Longrightarrow> getSettings g gid = (r, g)"
  by (simp add: getSettings_def)

lemma getSettings_default:
  "settings g gid = None \<Longrightarrow>
     getSettings g gid = (length (heap g), g\<lparr>heap := heap g @ [DEFAULT_MESSAGES]\<rparr>)"
  by (simp add: getSettings_def)

lemma property_default:
  "settings g gid = None \<Longrightarrow>
     property (snd (getSettings g gid)) (fst (getSettings g gid)) f = DEFAULT_MESSAGES f"
  by (simp add: getSettings_default property_def deref_def)

text \<open>
  Without an entry the caller gets an object of its own: writing to it does not change what
  the next call returns.
\<close>

lemma getSettings_default_is_a_copy:
  assumes "settings g gid = None"
  shows "property (snd (getSettings (assign_property (fst (getSettings g gid)) f v (snd (getSettings g gid))) gid))
           (fst (getSettings (assign_property (fst (getSettings g gid)) f v (snd (getSettings g gid))) gid)) f' =
         DEFAULT_MESSAGES f'"
proof -
  let ?g' = "assign_property (fst (getSettings g gid)) f v (snd (getSettings g gid))"
  have "settings ?g' gid = None"
    using assms by (simp add: getSettings_default assign_property_def)
  then show ?thesis by (rule property_default)
qed

lemma settings_configured_7: "settings configured_7 ''7'' = Some 1"
  by (simp add: updateSettings_def getSettings_def new_GuildSettings_def persist_gs_def deref_def)

lemma heap_configured_7: "heap configured_7 = [DEFAULT_MESSAGES, DEFAULT_MESSAGES(''roleId'' \<mapsto> JStr ''55'')]"
  by (simp add: updateSettings_def getSettings_def new_GuildSettings_def persist_gs_def deref_def
      map_add_def fun_eq_iff)

lemma settings_loaded_7: "settings loaded_7 ''7'' = Some 0 \<and> settings loaded_7 ''8'' = None"
  by (simp add: init_gs_def new_GuildSettings_def)

lemma heap_loaded_7: "heap loaded_7 = [[''roleId'' \<mapsto> JStr ''55'']]"
  by (simp add: init_gs_def new_GuildSettings_def)

section \<open>Claims about the guild settings\<close>

text \<open>
  C9. The claim is that \<^verbatim>\<open>getSettings\<close> returns a copy. For a guild with an entry it returns
  the object held by the map. With guild \<open>7\<close> configured with role \<open>55\<close>, a caller that takes
  the object returned by \<^verbatim>\<open>getSettings("7")\<close> and assigns \<open>99\<close> to its \<open>roleId\<close> changes
  the stored settings: the next \<^verbatim>\<open>getSettings("7")\<close> returns the same reference and its
  \<open>roleId\<close> reads \<open>99\<close>.
\<close>

theorem C9_getSettings_returns_the_stored_object:
  "property (snd (getSettings configured_7 ''7'')) (fst (getSettings configured_7 ''7'')) ''roleId'' =
     Some (JStr ''55'') \<and>
   fst (getSettings
          (assign_property (fst (getSettings configured_7 ''7'')) ''roleId'' (JStr ''99'')
             (snd (getSettings configured_7 ''7''))) ''7'') =
     fst (getSettings configured_7 ''7'') \<and>
   property
     (snd (getSettings
          (assign_property (fst (getSettings configured_7 ''7'')) ''roleId'' (JStr ''99'')
             (snd (getSettings configured_7 ''7''))) ''7''))
     (fst (getSettings
          (assign_property (fst (getSettings configured_7 ''7'')) ''roleId'' (JStr ''99'')
             (snd (getSettings configured_7 ''7''))) ''7''))
     ''roleId'' =
     Some (JStr ''99'')"
proof -
  have got: "getSettings configured_7 ''7'' = (1, configured_7)"
    using settings_configured_7 by (rule getSettings_stored)
  have "settings (assign_property 1 ''roleId'' (JStr ''99'') configured_7) ''7'' = Some 1"
    by (simp add: assign_property_def settings_configured_7)
  then have again: "getSettings (assign_property 1 ''roleId'' (JStr ''99'') configured_7) ''7'' =
      (1, assign_property 1 ''roleId'' (JStr ''99'') configured_7)"
    by (rule getSettings_stored)
  have before: "property configured_7 1 ''roleId'' = Some (JStr ''55'')"
    by (simp add: property_def deref_def heap_configured_7)
  have after: "property (assign_property 1 ''roleId'' (JStr ''99'') configured_7) 1 ''roleId'' =
      Some (JStr ''99'')"
    by (simp add: property_def deref_def assign_property_def heap_configured_7)
  show ?thesis
    by (simp only: got again before after fst_conv snd_conv simp_thms)
qed

text \<open>
  C10. For a guild with an entry in the map, \<^verbatim>\<open>getSettings\<close> returns the stored object and
  allocates nothing: every property reads as it is stored, and a property the record does not
  have reads \<^verbatim>\<open>undefined\<close> whatever \<^verbatim>\<open>DEFAULT_MESSAGES\<close> holds for it. For a guild
  without an entry, every property of the returned object reads as in
  \<^verbatim>\<open>DEFAULT_MESSAGES\<close>.
\<close>

theorem C10_getSettings_stored_record_as_it_is:
  "(settings g gid = Some r \<longrightarrow>
      getSettings g gid = (r, g) \<and>
      (\<forall>f. property (snd (getSettings g gid)) (fst (getSettings g gid)) f = property g r f) \<and>
      (\<forall>f. property g r f = None \<longrightarrow>
           property (snd (getSettings g gid)) (fst (getSettings g gid)) f = None)) \<and>
   (settings g gid = None \<longrightarrow>
      (\<forall>f. property (snd (getSettings g gid)) (fst (getSettings g gid)) f = DEFAULT_MESSAGES f))"
proof (intro conjI impI allI)
  assume "settings g gid = Some r"
  then show "getSettings g gid = (r, g)"
    by (rule getSettings_stored)
next
  fix f
  assume "settings g gid = Some r"
  then show "property (snd (getSettings g gid)) (fst (getSettings g gid)) f = property g r f"
    by (simp add: getSettings_stored)
next
  fix f
  assume "settings g gid = Some r" and "property g r f = None"
  then show "property (snd (getSettings g gid)) (fst (getSettings g gid)) f = None"
    by (simp add: getSettings_stored)
next
  fix f
  assume "settings g gid = None"
  then show "property (snd (getSettings g gid)) (fst (getSettings g gid)) f = DEFAULT_MESSAGES f"
    by (rule property_default)
qed

theorem C10_witness:
  "settings loaded_7 ''7'' = Some 0 \<and>
   getSettings loaded_7 ''7'' = (0, loaded_7) \<and>
   property loaded_7 0 ''roleId'' = Some (JStr ''55'') \<and>
   property (snd (getSettings loaded_7 ''7'')) (fst (getSettings loaded_7 ''7'')) ''roleId'' =
     Some (JStr ''55'') \<and>
   property loaded_7 0 ''embedTitle'' = None \<and>
   DEFAULT_MESSAGES ''embedTitle'' = Some (JStr ''Welcome to {servername}!'') \<and>
   property (snd (getSettings loaded_7 ''7'')) (fst (getSettings loaded_7 ''7'')) ''embedTitle'' = None \<and>
   settings loaded_7 ''8'' = None \<and>
   property (snd (getSettings loaded_7 ''8'')) (fst (getSettings loaded_7 ''8'')) ''embedTitle'' =
     Some (JStr ''Welcome to {servername}!'')"
proof -
  have h1: "settings loaded_7 ''7'' = Some 0" and h2: "settings loaded_7 ''8'' = None"
    using settings_loaded_7 by simp_all
  have h3: "property loaded_7 0 ''embedTitle'' = None"
    and h4: "property loaded_7 0 ''roleId'' = Some (JStr ''55'')"
    by (simp_all add: property_def deref_def heap_loaded_7)
  have d: "DEFAULT_MESSAGES ''embedTitle'' = Some (JStr ''Welcome to {servername}!'')"
    by (simp add: DEFAULT_MESSAGES_def)
  note stored = C10_getSettings_stored_record_as_it_is [of loaded_7 "''7''" 0]
  note absent = C10_getSettings_stored_record_as_it_is [of loaded_7 "''8''" 0]
  from stored h1 have a: "getSettings loaded_7 ''7'' = (0, loaded_7)"
    by blast
  from stored h1 h3
  have b: "property (snd (getSettings loaded_7 ''7'')) (fst (getSettings loaded_7 ''7'')) ''embedTitle'' = None"
    by blast
  from stored h1 h4
  have c: "property (snd (getSettings loaded_7 ''7'')) (fst (getSettings loaded_7 ''7'')) ''roleId'' =
      Some (JStr ''55'')"
    by simp
  from absent h2 d
  have e: "property (snd (getSettings loaded_7 ''8'')) (fst (getSettings loaded_7 ''8'')) ''embedTitle'' =
      Some (JStr ''Welcome to {servername}!'')"
    by simp
  from h1 h2 h3 h4 d a b c e show ?thesis
    by (intro conjI)
qed

end
